theory Spec2Isabelle
  imports Complex_Main "HOL-Library.Char_ord" "HOL-Library.List_Lexorder"
begin

section \<open>Python strings\<close>

text \<open>
  A Python \<open>str\<close> is modelled as a \<open>string\<close> whose characters are the code points
  U+0000 .. U+00FF. The character classes below are what CPython's \<open>str\<close> methods and
  the \<open>re\<close> module (Unicode mode, the default for \<open>str\<close> patterns) compute on that range.
\<close>

abbreviation NL :: char where
  "NL \<equiv> CHR 0x0A"

definition ord :: "char \<Rightarrow> nat" where
  "ord c = of_char c"

text \<open>\<open>\s\<close> and the default argument of \<open>str.strip\<close>: \<open>str.isspace\<close>.\<close>

definition isspace :: "char \<Rightarrow> bool" where
  "isspace c = (let n = ord c in
     (9 \<le> n \<and> n \<le> 13) \<or> (28 \<le> n \<and> n \<le> 32) \<or> n = 133 \<or> n = 160)"

text \<open>\<open>\d\<close>: the decimal digits.\<close>

definition isdigit :: "char \<Rightarrow> bool" where
  "isdigit c = (let n = ord c in 48 \<le> n \<and> n \<le> 57)"

definition isupper :: "char \<Rightarrow> bool" where
  "isupper c = (let n = ord c in
     (65 \<le> n \<and> n \<le> 90) \<or> (192 \<le> n \<and> n \<le> 222 \<and> n \<noteq> 215))"

definition islower_ascii :: "char \<Rightarrow> bool" where
  "islower_ascii c = (let n = ord c in 97 \<le> n \<and> n \<le> 122)"

text \<open>\<open>\w\<close>: alphanumeric (\<open>str.isalnum\<close>) or the underscore.\<close>

definition isword :: "char \<Rightarrow> bool" where
  "isword c = (let n = ord c in
     (48 \<le> n \<and> n \<le> 57) \<or> (65 \<le> n \<and> n \<le> 90) \<or> n = 95 \<or> (97 \<le> n \<and> n \<le> 122) \<or>
     n = 170 \<or> n = 178 \<or> n = 179 \<or> n = 181 \<or> n = 185 \<or> n = 186 \<or>
     (188 \<le> n \<and> n \<le> 190) \<or> (192 \<le> n \<and> n \<le> 214) \<or> (216 \<le> n \<and> n \<le> 246) \<or>
     (248 \<le> n \<and> n \<le> 255))"

definition lower_char :: "char \<Rightarrow> char" where
  "lower_char c = (if isupper c then char_of (ord c + 32) else c)"

definition lower :: "string \<Rightarrow> string" where
  "lower s = map lower_char s"

definition strip_chars :: "(char \<Rightarrow> bool) \<Rightarrow> string \<Rightarrow> string" where
  "strip_chars P s = rev (dropWhile P (rev (dropWhile P s)))"

definition strip :: "string \<Rightarrow> string" where
  "strip s = strip_chars isspace s"

definition startswith :: "string \<Rightarrow> string \<Rightarrow> bool" where
  "startswith s p = (take (length p) s = p)"

text \<open>\<open>sub in s\<close>.\<close>

fun contains :: "string \<Rightarrow> string \<Rightarrow> bool" where
  "contains sub [] = (sub = [])"
| "contains sub (c # s) = (startswith (c # s) sub \<or> contains sub s)"

text \<open>\<open>s.split('\n')\<close>: never empty, \<open>''.split('\n') == ['']\<close>.\<close>

fun split_nl :: "string \<Rightarrow> string list" where
  "split_nl [] = [[]]"
| "split_nl (c # s) =
     (if c = NL then [] # split_nl s
      else (case split_nl s of l # ls \<Rightarrow> (c # l) # ls | [] \<Rightarrow> [[c]]))"

text \<open>\<open>sep.join(xs)\<close>.\<close>

fun join :: "string \<Rightarrow> string list \<Rightarrow> string" where
  "join sep [] = []"
| "join sep [x] = x"
| "join sep (x # y # ys) = x @ sep @ join sep (y # ys)"

text \<open>
  \<open>int(s)\<close> on a string of decimal digits, as the patterns \<open>(\d+)\<close> capture it. The
  result is unbounded, as Python's integers are; the interpreter's configurable limit on
  the number of digits of such a conversion is not modelled.
\<close>

definition digit_val :: "char \<Rightarrow> int" where
  "digit_val c = int (ord c) - 48"

definition py_int :: "string \<Rightarrow> int" where
  "py_int s = foldl (\<lambda>a c. 10 * a + digit_val c) 0 s"

section \<open>Regular expressions\<close>

text \<open>
  The patterns of the source are built from the combinators below. A matcher maps the
  input at the current position to the list of its possible matches, each the text
  consumed and the input left, in the order in which the backtracking engine of \<open>re\<close>
  tries them (greedy repetition: longest first; lazy: shortest first; alternation: left
  to right). The first alternative for which the rest of the pattern succeeds wins.
\<close>

type_synonym matcher = "string \<Rightarrow> (string \<times> string) list"

definition cls :: "(char \<Rightarrow> bool) \<Rightarrow> matcher" where
  "cls P s = (case s of [] \<Rightarrow> [] | c # r \<Rightarrow> if P c then [([c], r)] else [])"

definition lit :: "string \<Rightarrow> matcher" where
  "lit w s = (if startswith s w then [(w, drop (length w) s)] else [])"

definition re_seq :: "matcher \<Rightarrow> matcher \<Rightarrow> matcher" where
  "re_seq m1 m2 s =
     concat (map (\<lambda>(a, r). map (\<lambda>(b, r'). (a @ b, r')) (m2 r)) (m1 s))"

definition re_alt :: "matcher list \<Rightarrow> matcher" where
  "re_alt ms s = concat (map (\<lambda>m. m s) ms)"

definition re_eps :: matcher where
  "re_eps s = [([], s)]"

text \<open>\<open>m?\<close>\<close>

definition re_opt :: "matcher \<Rightarrow> matcher" where
  "re_opt m = re_alt [m, re_eps]"

text \<open>\<open>[...]*\<close> on a character class, greedy.\<close>

fun cls_star :: "(char \<Rightarrow> bool) \<Rightarrow> matcher" where
  "cls_star P [] = [([], [])]"
| "cls_star P (c # s) =
     (if P c then map (\<lambda>(a, r). (c # a, r)) (cls_star P s) @ [([], c # s)]
      else [([], c # s)])"

text \<open>\<open>[...]+\<close>\<close>

definition cls_plus :: "(char \<Rightarrow> bool) \<Rightarrow> matcher" where
  "cls_plus P = re_seq (cls P) (cls_star P)"

text \<open>\<open>[...]*?\<close> on a character class, lazy.\<close>

fun cls_star_lazy :: "(char \<Rightarrow> bool) \<Rightarrow> matcher" where
  "cls_star_lazy P [] = [([], [])]"
| "cls_star_lazy P (c # s) =
     ([], c # s) # (if P c then map (\<lambda>(a, r). (c # a, r)) (cls_star_lazy P s) else [])"

text \<open>\<open>$\<close> without \<open>re.MULTILINE\<close>: at the end, or before a newline that ends the string.\<close>

definition re_end :: matcher where
  "re_end s = (if s = [] \<or> s = [NL] then [([], s)] else [])"

text \<open>\<open>.\<close> without and with \<open>re.DOTALL\<close>.\<close>

definition dot :: "char \<Rightarrow> bool" where
  "dot c = (c \<noteq> NL)"

definition dot_all :: "char \<Rightarrow> bool" where
  "dot_all c = True"

text \<open>
  A pattern with capture groups yields the captured texts instead of the whole match:
  \<open>grp m\<close> is \<open>(m)\<close>, \<open>nogrp m\<close> a part outside every group.
\<close>

type_synonym gmatcher = "string \<Rightarrow> (string list \<times> string) list"

definition grp :: "matcher \<Rightarrow> gmatcher" where
  "grp m s = map (\<lambda>(a, r). ([a], r)) (m s)"

definition nogrp :: "matcher \<Rightarrow> gmatcher" where
  "nogrp m s = map (\<lambda>(a, r). ([], r)) (m s)"

definition g_seq :: "gmatcher \<Rightarrow> gmatcher \<Rightarrow> gmatcher" where
  "g_seq m1 m2 s =
     concat (map (\<lambda>(a, r). map (\<lambda>(b, r'). (a @ b, r')) (m2 r)) (m1 s))"

text \<open>\<open>re.match\<close>: the groups of the first match at the start of the string.\<close>

definition re_match :: "gmatcher \<Rightarrow> string \<Rightarrow> string list option" where
  "re_match p s = (case p s of [] \<Rightarrow> None | (gs, _) # _ \<Rightarrow> Some gs)"

text \<open>\<open>re.search\<close>: the first position, from the left, at which the pattern matches.\<close>

fun re_search :: "gmatcher \<Rightarrow> string \<Rightarrow> string list option" where
  "re_search p [] = re_match p []"
| "re_search p (c # s) =
     (case re_match p (c # s) of Some gs \<Rightarrow> Some gs | None \<Rightarrow> re_search p s)"

text \<open>
  \<open>re.sub(p, repl, s)\<close> for a pattern that matches no empty string: each match, found
  left to right, is replaced by \<open>repl\<close>, every other character is kept.
\<close>

function re_sub :: "matcher \<Rightarrow> string \<Rightarrow> string \<Rightarrow> string" where
  "re_sub m repl [] = []"
| "re_sub m repl (c # s) =
     (case m (c # s) of
        (a, r) # _ \<Rightarrow>
          if length r < length (c # s) then repl @ re_sub m repl r
          else c # re_sub m repl s
      | [] \<Rightarrow> c # re_sub m repl s)"
  by pat_completeness auto
termination
  by (relation "measure (\<lambda>(m, repl, s). length s)") auto

section \<open>Recipe identifiers\<close>

text \<open>
  \<^verbatim>\<open>recipe_id = re.sub(r'[^\w\s-]', '', title.lower())\<close>
  \<^verbatim>\<open>recipe_id = re.sub(r'[-\s]+', '-', recipe_id)\<close>
  \<^verbatim>\<open>return recipe_id.strip('-')\<close>
\<close>

definition not_word_space_hyphen :: "char \<Rightarrow> bool" where
  "not_word_space_hyphen c = (\<not> (isword c \<or> isspace c \<or> c = CHR ''-''))"

definition hyphen_or_space :: "char \<Rightarrow> bool" where
  "hyphen_or_space c = (c = CHR ''-'' \<or> isspace c)"

definition generate_recipe_id :: "string \<Rightarrow> string" where
  "generate_recipe_id title =
     (let recipe_id = re_sub (cls not_word_space_hyphen) [] (lower title);
          recipe_id = re_sub (cls_plus hyphen_or_space) ''-'' recipe_id
      in strip_chars (\<lambda>c. c = CHR ''-'') recipe_id)"

section \<open>Ingredient categories\<close>

definition any_in :: "string list \<Rightarrow> string \<Rightarrow> bool" where
  "any_in words s = list_ex (\<lambda>word. contains word s) words"

definition produce_words :: "string list" where
  "produce_words = [''carrot'', ''celery'', ''onion'', ''garlic'', ''tomato'',
     ''pepper'', ''kale'', ''lettuce'', ''spinach'', ''bean'',
     ''apple'', ''kiwi'', ''berry'', ''fruit'', ''lime'', ''lemon'']"

definition protein_words :: "string list" where
  "protein_words = [''chicken'', ''beef'', ''pork'', ''fish'', ''turkey'',
     ''salmon'', ''tuna'', ''shrimp'', ''tofu'']"

definition dairy_words :: "string list" where
  "dairy_words = [''milk'', ''cheese'', ''yogurt'', ''butter'', ''cream'',
     ''cheddar'', ''mozzarella'', ''parmesan'']"

definition spices_words :: "string list" where
  "spices_words = [''salt'', ''pepper'', ''cumin'', ''paprika'', ''oregano'',
     ''basil'', ''thyme'', ''cinnamon'', ''turmeric'',
     ''chili powder'', ''italian seasoning'']"

definition categorize_ingredient :: "string \<Rightarrow> string" where
  "categorize_ingredient ingredient =
     (let ingredient_lower = lower ingredient in
      if any_in produce_words ingredient_lower then ''produce''
      else if any_in protein_words ingredient_lower then ''protein''
      else if any_in dairy_words ingredient_lower then ''dairy''
      else if any_in spices_words ingredient_lower then ''spices''
      else ''pantry'')"

section \<open>Title and metadata\<close>

record title_metadata =
  md_title :: string
  md_cookTime :: string
  md_servings :: int

text \<open>\<open>m.group(1)\<close> of a match object, \<open>None\<close> when there is no match.\<close>

definition group1 :: "string list option \<Rightarrow> string option" where
  "group1 m = (case m of Some (g # _) \<Rightarrow> Some g | _ \<Rightarrow> None)"

text \<open>\<^verbatim>\<open>(\d+)\s*minutes\<close> and \<^verbatim>\<open>(\d+)\s*servings?\<close>\<close>

definition time_re :: gmatcher where
  "time_re = g_seq (grp (cls_plus isdigit)) (nogrp (re_seq (cls_star isspace) (lit ''minutes'')))"

definition servings_re :: gmatcher where
  "servings_re =
     g_seq (grp (cls_plus isdigit))
       (nogrp (re_seq (cls_star isspace) (re_seq (lit ''serving'') (re_opt (lit ''s'')))))"

text \<open>
  The loop over \<open>enumerate(lines)\<close>, on the lines from index \<open>i\<close> on. It yields the
  variables \<open>title\<close>, \<open>cook_time\<close>, \<open>servings\<close> as they are when the loop ends. The
  \<open>break\<close> follows the assignment of \<open>title\<close> directly, so \<open>not title\<close> holds whenever
  the condition is evaluated.
\<close>

fun scan_lines :: "string list \<Rightarrow> string option \<times> string option \<times> int option" where
  "scan_lines (l # n # rest) =
     (let line = strip l in
      if length line > 20 \<and> \<not> startswith line ''Find cookware'' then
        (let next_line = strip n in
         if contains ''minutes'' next_line \<and> contains ''servings'' next_line then
           (Some line,
            map_option (\<lambda>g. g @ '' minutes'') (group1 (re_search time_re next_line)),
            map_option py_int (group1 (re_search servings_re next_line)))
         else scan_lines (n # rest))
      else scan_lines (n # rest))"
| "scan_lines _ = (None, None, None)"

text \<open>\<open>x or d\<close> for a string and for an integer that may be \<open>None\<close>.\<close>

definition or_str :: "string option \<Rightarrow> string \<Rightarrow> string" where
  "or_str x d = (case x of None \<Rightarrow> d | Some v \<Rightarrow> if v = [] then d else v)"

definition or_int :: "int option \<Rightarrow> int \<Rightarrow> int" where
  "or_int x d = (case x of None \<Rightarrow> d | Some v \<Rightarrow> if v = 0 then d else v)"

definition parse_title_and_metadata :: "string \<Rightarrow> title_metadata" where
  "parse_title_and_metadata text_in =
     (case scan_lines (split_nl text_in) of (title, cook_time, servings) \<Rightarrow>
        \<lparr>md_title = or_str title ''Unknown Recipe'',
         md_cookTime = or_str cook_time ''30 minutes'',
         md_servings = or_int servings 2\<rparr>)"

section \<open>Cookware\<close>

text \<open>\<^verbatim>\<open>Find cookware\n(.*?)\nGrab ingredients\<close> with \<open>re.DOTALL\<close>\<close>

definition cookware_re :: gmatcher where
  "cookware_re =
     g_seq (nogrp (lit (''Find cookware'' @ [NL])))
       (g_seq (grp (cls_star_lazy dot_all)) (nogrp (lit (NL # ''Grab ingredients''))))"

text \<open>\<^verbatim>\<open>\s*\(optional\)\<close>\<close>

definition optional_re :: matcher where
  "optional_re = re_seq (cls_star isspace) (lit ''(optional)'')"

fun cookware_items :: "string list \<Rightarrow> string list" where
  "cookware_items [] = []"
| "cookware_items (i # items) =
     (let item = strip i in
      if item \<noteq> [] \<and> \<not> startswith item ''Find'' \<and> length item > 2
      then re_sub optional_re [] item # cookware_items items
      else cookware_items items)"

definition parse_cookware :: "string \<Rightarrow> string list" where
  "parse_cookware text_in =
     (case group1 (re_search cookware_re text_in) of
        None \<Rightarrow> []
      | Some cookware_text \<Rightarrow> cookware_items (split_nl cookware_text))"

section \<open>Ingredients\<close>

record ingredient =
  name :: string
  quantity :: string
  category :: string
  original :: string

text \<open>\<^verbatim>\<open>Grab ingredients\n(.*?)\n(?:Cook & enjoy|$)\<close> with \<open>re.DOTALL\<close>\<close>

definition ingredients_re :: gmatcher where
  "ingredients_re =
     g_seq (nogrp (lit (''Grab ingredients'' @ [NL])))
       (g_seq (grp (cls_star_lazy dot_all))
          (nogrp (re_seq (lit [NL]) (re_alt [lit ''Cook & enjoy'', re_end]))))"

text \<open>
  \<^verbatim>\<open>^([\d\/\.\s]+(?:\([^)]+\))?\s*(?:cup|tbsp|tsp|oz|lb|fl oz|pkg|can|bunch|stick|clove|medium|small|large)?s?)\s+(.+)$\<close>
\<close>

definition qty_char :: "char \<Rightarrow> bool" where
  "qty_char c = (isdigit c \<or> c = CHR ''/'' \<or> c = CHR ''.'' \<or> isspace c)"

definition parenthetical :: matcher where
  "parenthetical = re_seq (lit ''('') (re_seq (cls_plus (\<lambda>c. c \<noteq> CHR '')'')) (lit '')''))"

definition unit_words :: "string list" where
  "unit_words = [''cup'', ''tbsp'', ''tsp'', ''oz'', ''lb'', ''fl oz'', ''pkg'', ''can'',
     ''bunch'', ''stick'', ''clove'', ''medium'', ''small'', ''large'']"

definition quantity_prefix :: matcher where
  "quantity_prefix =
     re_seq (cls_plus qty_char)
       (re_seq (re_opt parenthetical)
          (re_seq (cls_star isspace)
             (re_seq (re_opt (re_alt (map lit unit_words))) (re_opt (lit ''s'')))))"

definition quantity_re :: gmatcher where
  "quantity_re =
     g_seq (grp quantity_prefix)
       (g_seq (nogrp (cls_plus isspace)) (g_seq (grp (cls_plus dot)) (nogrp re_end)))"

text \<open>The body of the loop for a stripped line that is not skipped.\<close>

definition ingredient_of_line :: "string \<Rightarrow> ingredient" where
  "ingredient_of_line line =
     (let category = categorize_ingredient line in
      case re_match quantity_re line of
        Some [g1, g2] \<Rightarrow>
          \<lparr>name = lower (strip g2), quantity = strip g1, category = category, original = line\<rparr>
      | _ \<Rightarrow>
          \<lparr>name = lower line, quantity = [], category = category, original = line\<rparr>)"

fun ingredient_lines :: "string list \<Rightarrow> ingredient list" where
  "ingredient_lines [] = []"
| "ingredient_lines (l # ls) =
     (let line = strip l in
      if line = [] \<or> startswith line ''Grab'' \<or> length line < 3 then ingredient_lines ls
      else ingredient_of_line line # ingredient_lines ls)"

definition parse_ingredients :: "string \<Rightarrow> ingredient list" where
  "parse_ingredients text_in =
     (case group1 (re_search ingredients_re text_in) of
        None \<Rightarrow> []
      | Some ingredients_text \<Rightarrow> ingredient_lines (split_nl ingredients_text))"

section \<open>Instructions\<close>

record instruction =
  step :: int
  step_text :: string

text \<open>\<^verbatim>\<open>Cook & enjoy\n(.*?)(?:\n\d+\sof\s\d+|$)\<close> with \<open>re.DOTALL\<close>\<close>

definition page_footer :: matcher where
  "page_footer =
     re_seq (lit [NL]) (re_seq (cls_plus isdigit) (re_seq (cls isspace)
       (re_seq (lit ''of'') (re_seq (cls isspace) (cls_plus isdigit)))))"

definition instructions_re :: gmatcher where
  "instructions_re =
     g_seq (nogrp (lit (''Cook & enjoy'' @ [NL])))
       (g_seq (grp (cls_star_lazy dot_all)) (nogrp (re_alt [page_footer, re_end])))"

text \<open>\<^verbatim>\<open>^(\d+)\s*$\<close>\<close>

definition step_re :: gmatcher where
  "step_re = g_seq (grp (cls_plus isdigit)) (nogrp (re_seq (cls_star isspace) re_end))"

text \<open>"Save previous step" and "Save last step".\<close>

definition save_step :: "int option \<Rightarrow> string list \<Rightarrow> instruction list \<Rightarrow> instruction list" where
  "save_step current_step current_text instructions =
     (case current_step of
        Some n \<Rightarrow>
          if current_text \<noteq> []
          then instructions @ [\<lparr>step = n, step_text = strip (join '' '' current_text)\<rparr>]
          else instructions
      | None \<Rightarrow> instructions)"

fun walk_lines ::
  "string list \<Rightarrow> int option \<Rightarrow> string list \<Rightarrow> instruction list \<Rightarrow> instruction list" where
  "walk_lines [] current_step current_text instructions =
     save_step current_step current_text instructions"
| "walk_lines (l # ls) current_step current_text instructions =
     (let line = strip l in
      if line = [] then walk_lines ls current_step current_text instructions
      else
        (case group1 (re_match step_re line) of
           Some g \<Rightarrow>
             walk_lines ls (Some (py_int g)) []
               (save_step current_step current_text instructions)
         | None \<Rightarrow>
             if current_step \<noteq> None
             then walk_lines ls current_step (current_text @ [line]) instructions
             else walk_lines ls current_step current_text instructions))"

definition parse_instructions :: "string \<Rightarrow> instruction list" where
  "parse_instructions text_in =
     (case group1 (re_search instructions_re text_in) of
        None \<Rightarrow> []
      | Some instructions_text \<Rightarrow> walk_lines (split_nl instructions_text) None [] [])"

section \<open>One PDF file\<close>

record recipe =
  recipe_id :: string
  title :: string
  cookTime :: string
  servings :: int
  cookware :: "string list"
  ingredients :: "ingredient list"
  instructions :: "instruction list"
  tags :: "string list"

text \<open>
  The PDF library is outside the program. A PDF file is modelled by what the library
  gives for it: the texts of its pages, or \<open>None\<close> when opening the file or extracting
  a page raises. The lines printed are modelled as a list of messages.
\<close>

type_synonym pdf = "string list option"

datatype message =
    ErrorReading string
  | Processing string
  | WarnNoText string
  | WarnMissing string
  | Counts nat nat
  | Extracted nat nat
  | ErrorNoDirectory string
  | ErrorNoPdfFiles string
  | Found nat
  | Succeeded nat
  | Failed nat "string list"
  | OutputWritten string

definition extract_text_from_pdf :: "string \<Rightarrow> pdf \<Rightarrow> string \<times> message list" where
  "extract_text_from_pdf pdf_path pdf =
     (case pdf of
        Some pages \<Rightarrow> (concat (map (\<lambda>page. page @ [NL]) pages), [])
      | None \<Rightarrow> ([], [ErrorReading pdf_path]))"

text \<open>\<open>os.path.basename\<close> and \<open>Path.name\<close> of a path with \<open>/\<close> as separator.\<close>

definition basename :: "string \<Rightarrow> string" where
  "basename p = rev (takeWhile (\<lambda>c. c \<noteq> CHR ''/'') (rev p))"

definition parse_recipe_pdf :: "string \<Rightarrow> pdf \<Rightarrow> recipe option \<times> message list" where
  "parse_recipe_pdf pdf_path pdf =
     (case extract_text_from_pdf pdf_path pdf of (text_in, log0) \<Rightarrow>
        if text_in = [] then (None, [Processing (basename pdf_path)] @ log0 @ [WarnNoText pdf_path])
        else
          (let metadata = parse_title_and_metadata text_in;
               cookware = parse_cookware text_in;
               ingredients = parse_ingredients text_in;
               instructions = parse_instructions text_in;
               warning =
                 (if ingredients = [] \<or> instructions = []
                  then [WarnMissing pdf_path, Counts (length ingredients) (length instructions)]
                  else []);
               recipe =
                 \<lparr>recipe_id = generate_recipe_id (md_title metadata),
                  title = md_title metadata,
                  cookTime = md_cookTime metadata,
                  servings = md_servings metadata,
                  cookware = cookware,
                  ingredients = ingredients,
                  instructions = instructions,
                  tags = []\<rparr>
           in (Some recipe,
               [Processing (basename pdf_path)] @ log0 @ warning @
               [Extracted (length ingredients) (length instructions)])))"

section \<open>A directory of PDF files\<close>

record doc_metadata =
  total_count :: int
  generated :: string
  source :: string

record output_document =
  recipes :: "recipe list"
  metadata :: doc_metadata

text \<open>
  The loop over \<open>sorted(pdf_files)\<close>. No function called in the \<open>try\<close> block raises in
  this model, so the \<open>except\<close> branch has no counterpart. A recipe that is returned is a
  dictionary with eight keys, hence true in \<open>if recipe\<close>.
\<close>

fun process_files ::
  "(string \<times> pdf) list \<Rightarrow> recipe list \<Rightarrow> string list \<Rightarrow> message list \<Rightarrow>
   recipe list \<times> string list \<times> message list" where
  "process_files [] recs failed logged = (recs, failed, logged)"
| "process_files ((pdf_file, pdf) # files) recs failed logged =
     (case parse_recipe_pdf pdf_file pdf of
        (Some recipe, msgs) \<Rightarrow> process_files files (recs @ [recipe]) failed (logged @ msgs)
      | (None, msgs) \<Rightarrow>
          process_files files recs (failed @ [basename pdf_file]) (logged @ msgs))"

text \<open>
  The file system is a parameter: \<open>listing\<close> is \<open>None\<close> when the input directory does
  not exist, and otherwise the files that \<open>glob('*.pdf')\<close> finds there, each with its path
  and its content. The result is the document written to the output file (\<open>None\<close> when
  nothing is written), the names of the failed files and the messages printed; the
  separator lines and the size of the written file are left out of the messages.
\<close>

definition process_directory ::
  "string \<Rightarrow> (string \<times> pdf) list option \<Rightarrow> string \<Rightarrow>
   output_document option \<times> string list \<times> message list" where
  "process_directory input_dir listing output_file =
     (case listing of
        None \<Rightarrow> (None, [], [ErrorNoDirectory input_dir])
      | Some pdf_files \<Rightarrow>
          if pdf_files = [] then (None, [], [ErrorNoPdfFiles input_dir])
          else
            (case process_files (sort_key fst pdf_files) [] [] [Found (length pdf_files)] of
               (recs, failed, logged) \<Rightarrow>
                 (Some \<lparr>recipes = recs,
                        metadata = \<lparr>total_count = int (length recs),
                                    generated = ''Generated by pdf_to_json.py'',
                                    source = input_dir\<rparr>\<rparr>,
                  failed,
                  logged @ [Succeeded (length recs)] @
                  (if failed \<noteq> [] then [Failed (length failed) failed] else []) @
                  [OutputWritten output_file])))"

section \<open>Validation\<close>

text \<open>
  The file given to the validator either cannot be read, or is not JSON, or holds a
  document of the shape the directory processor writes; \<open>json.load\<close> gives back what
  \<open>json.dump\<close> wrote.
\<close>

datatype json_file = Unreadable | Malformed | Document output_document

datatype py_error = ZeroDivisionError | JSONDecodeError | OSError

record issue =
  issue_index :: nat
  issue_id :: string
  missing :: "string list"

fun find_issues :: "nat \<Rightarrow> recipe list \<Rightarrow> issue list" where
  "find_issues i [] = []"
| "find_issues i (r # rs) =
     (let miss =
            (if title r = [] then [''title''] else []) @
            (if ingredients r = [] then [''ingredients''] else []) @
            (if instructions r = [] then [''instructions''] else [])
      in (if miss \<noteq> []
          then [\<lparr>issue_index = i + 1, issue_id = recipe_id r, missing = miss\<rparr>]
          else []) @ find_issues (i + 1) rs)"

text \<open>
  \<open>a / b\<close> on integers. Python rounds the quotient to a float and prints one decimal;
  the model keeps the exact quotient.
\<close>

definition truediv :: "nat \<Rightarrow> nat \<Rightarrow> py_error + rat" where
  "truediv a b = (if b = 0 then Inl ZeroDivisionError else Inr (of_nat a / of_nat b))"

datatype vmessage =
    Validating
  | ValidJson nat
  | ValidationWarnings "issue list" "nat option"
  | AllOk
  | Statistics nat nat nat
  | AvgIngredients rat
  | AvgSteps rat
  | InvalidJson
  | ErrorValidating py_error

definition statistics :: "recipe list \<Rightarrow> vmessage list" where
  "statistics rs =
     (let total_ingredients = sum_list (map (\<lambda>r. length (ingredients r)) rs);
          total_steps = sum_list (map (\<lambda>r. length (instructions r)) rs)
      in Statistics (length rs) total_ingredients total_steps #
         (case truediv total_ingredients (length rs) of
            Inl e \<Rightarrow> [ErrorValidating e]
          | Inr avg_ingredients \<Rightarrow>
              AvgIngredients avg_ingredients #
              (case truediv total_steps (length rs) of
                 Inl e \<Rightarrow> [ErrorValidating e]
               | Inr avg_steps \<Rightarrow> [AvgSteps avg_steps])))"

definition validate_json :: "json_file \<Rightarrow> vmessage list" where
  "validate_json json_file =
     Validating #
     (case json_file of
        Unreadable \<Rightarrow> [ErrorValidating OSError]
      | Malformed \<Rightarrow> [InvalidJson]
      | Document data \<Rightarrow>
          (let rs = recipes data;
               issues = find_issues 0 rs
           in ValidJson (length rs) #
              (if issues \<noteq> []
               then [ValidationWarnings (take 10 issues)
                       (if length issues > 10 then Some (length issues - 10) else None)]
               else [AllOk]) @
              statistics rs))"

section \<open>Notions used in the statements\<close>

text \<open>\<open>s.endswith(p)\<close>\<close>

definition endswith :: "string \<Rightarrow> string \<Rightarrow> bool" where
  "endswith s p = (length p \<le> length s \<and> drop (length s - length p) s = p)"

text \<open>The characters \<open>[a-z0-9-]\<close>.\<close>

definition slug_char :: "char \<Rightarrow> bool" where
  "slug_char c = (islower_ascii c \<or> isdigit c \<or> c = CHR ''-'')"

text \<open>Two neighbouring occurrences of a character.\<close>

fun adjacent :: "char \<Rightarrow> string \<Rightarrow> bool" where
  "adjacent h (a # b # s) = ((a = h \<and> b = h) \<or> adjacent h (b # s))"
| "adjacent h _ = False"








section \<open>Properties of the string operations and of the matchers\<close>


lemma startswith_iff: "startswith s p \<longleftrightarrow> (\<exists>r. s = p @ r)"
  unfolding startswith_def
  by (metis append_eq_conv_conj append_take_drop_id)













lemma re_match_None_iff: "re_match p s = None \<longleftrightarrow> p s = []"
  by (auto simp: re_match_def split: list.splits)


lemma contains_iff: "contains sub s \<longleftrightarrow> (\<exists>xs ys. s = xs @ sub @ ys)"
proof (induction s)
  case Nil
  show ?case by auto
next
  case (Cons c s)
  show ?case
  proof
    assume "contains sub (c # s)"
    then consider "startswith (c # s) sub" | "contains sub s" by auto
    then show "\<exists>xs ys. c # s = xs @ sub @ ys"
    proof cases
      case 1
      then obtain r where "c # s = sub @ r" using startswith_iff by blast
      then have "c # s = [] @ sub @ r" by simp
      then show ?thesis by blast
    next
      case 2
      with Cons obtain xs ys where "s = xs @ sub @ ys" by blast
      then have "c # s = (c # xs) @ sub @ ys" by simp
      then show ?thesis by blast
    qed
  next
    assume "\<exists>xs ys. c # s = xs @ sub @ ys"
    then obtain xs ys where eq: "c # s = xs @ sub @ ys" by blast
    show "contains sub (c # s)"
    proof (cases xs)
      case Nil
      with eq have "startswith (c # s) sub" using startswith_iff by auto
      then show ?thesis by simp
    next
      case (Cons x xs')
      with eq have "s = xs' @ sub @ ys" by simp
      with Cons.IH have "contains sub s" by blast
      then show ?thesis by simp
    qed
  qed
qed

lemma ord_lt_256: "ord c < 256"
  by (simp add: ord_def)

lemma lower_char_not_upper: "\<not> isupper (lower_char c)"
proof (cases "isupper c")
  case False then show ?thesis by (simp add: lower_char_def)
next
  case True
  have "ord c < 256" by (rule ord_lt_256)
  with True show ?thesis
    by (auto simp: lower_char_def isupper_def ord_def Let_def)
qed

lemma lower_char_fixed_iff: "lower_char c = c \<longleftrightarrow> \<not> isupper c"
  using lower_char_not_upper [of c] by (auto simp: lower_char_def)

lemma lower_fixed_iff: "lower s = s \<longleftrightarrow> (\<forall>c\<in>set s. \<not> isupper c)"
  by (induction s) (auto simp: lower_def lower_char_fixed_iff)

lemma re_sub_cls: "re_sub (cls P) [] s = filter (\<lambda>c. \<not> P c) s"
  by (induction s) (auto simp: cls_def)

lemma cls_star_hd: "\<exists>rest. cls_star P s = (takeWhile P s, dropWhile P s) # rest"
proof (induction s)
  case Nil
  show ?case by simp
next
  case (Cons c s)
  then obtain rest where "cls_star P s = (takeWhile P s, dropWhile P s) # rest" by blast
  then show ?case by simp
qed

lemma cls_plus_hd:
  "P c \<Longrightarrow> \<exists>rest. cls_plus P (c # s) = (c # takeWhile P s, dropWhile P s) # rest"
  using cls_star_hd [of P s] by (auto simp: cls_plus_def re_seq_def cls_def)

lemma cls_plus_none: "\<not> P c \<Longrightarrow> cls_plus P (c # s) = []"
  by (simp add: cls_plus_def re_seq_def cls_def)

lemma re_sub_plus_step:
  "re_sub (cls_plus P) repl (c # s) =
     (if P c then repl @ re_sub (cls_plus P) repl (dropWhile P s)
      else c # re_sub (cls_plus P) repl s)"
proof (cases "P c")
  case True
  then obtain rest where "cls_plus P (c # s) = (c # takeWhile P s, dropWhile P s) # rest"
    using cls_plus_hd by blast
  moreover have "length (dropWhile P s) < length (c # s)"
    by (simp add: le_imp_less_Suc length_dropWhile_le)
  ultimately show ?thesis using True by simp
next
  case False
  then show ?thesis by (simp add: cls_plus_none)
qed

lemma contains_double: "contains [h, h] s = adjacent h s"
  by (induction h s rule: adjacent.induct) (auto simp: startswith_def)

lemma collapse_props:
  "set (re_sub (cls_plus hyphen_or_space) ''-'' s) \<subseteq> {c \<in> set s. \<not> isspace c} \<union> {CHR ''-''}
   \<and> \<not> adjacent (CHR ''-'') (re_sub (cls_plus hyphen_or_space) ''-'' s)
   \<and> (\<forall>c r. s = c # r \<and> \<not> hyphen_or_space c \<longrightarrow>
         \<not> startswith (re_sub (cls_plus hyphen_or_space) ''-'' s) ''-'')"
proof (induction s rule: length_induct)
  case (1 s)
  show ?case
  proof (cases s)
    case Nil
    then show ?thesis by simp
  next
    case (Cons c r)
    show ?thesis
    proof (cases "hyphen_or_space c")
      case False
      have IH: "set (re_sub (cls_plus hyphen_or_space) ''-'' r) \<subseteq> {c \<in> set r. \<not> isspace c} \<union> {CHR ''-''}"
        "\<not> adjacent (CHR ''-'') (re_sub (cls_plus hyphen_or_space) ''-'' r)"
        using 1 Cons by auto
      from False have c: "c \<noteq> CHR ''-''" "\<not> isspace c" by (auto simp: hyphen_or_space_def)
      have eq: "re_sub (cls_plus hyphen_or_space) ''-'' s = c # re_sub (cls_plus hyphen_or_space) ''-'' r"
        using False Cons by (simp add: re_sub_plus_step del: re_sub.simps)
      have "\<not> adjacent (CHR ''-'') (c # re_sub (cls_plus hyphen_or_space) ''-'' r)"
        using IH(2) c by (cases "re_sub (cls_plus hyphen_or_space) ''-'' r") auto
      then show ?thesis using IH c eq Cons by (auto simp: startswith_def)
    next
      case True
      let ?d = "dropWhile hyphen_or_space r"
      have len: "length ?d < length s" using Cons
        by (simp add: le_imp_less_Suc length_dropWhile_le)
      have IH: "set (re_sub (cls_plus hyphen_or_space) ''-'' ?d) \<subseteq> {c \<in> set ?d. \<not> isspace c} \<union> {CHR ''-''}"
        "\<not> adjacent (CHR ''-'') (re_sub (cls_plus hyphen_or_space) ''-'' ?d)"
        "\<forall>c r. ?d = c # r \<and> \<not> hyphen_or_space c \<longrightarrow>
         \<not> startswith (re_sub (cls_plus hyphen_or_space) ''-'' ?d) ''-''"
        using 1 len by blast+
      have eq: "re_sub (cls_plus hyphen_or_space) ''-'' s = CHR ''-'' # re_sub (cls_plus hyphen_or_space) ''-'' ?d"
        using True Cons by (simp add: re_sub_plus_step del: re_sub.simps)
      have nostart: "\<not> startswith (re_sub (cls_plus hyphen_or_space) ''-'' ?d) ''-''"
      proof (cases ?d)
        case Nil
        then have "re_sub (cls_plus hyphen_or_space) ''-'' ?d = []" by (simp only: re_sub.simps)
        then show ?thesis by (simp add: startswith_def)
      next
        case (Cons d ds)
        then have "\<not> hyphen_or_space d" by (metis hd_dropWhile list.sel(1) list.discI)
        with IH(3) Cons show ?thesis by blast
      qed
      have "\<not> adjacent (CHR ''-'') (CHR ''-'' # re_sub (cls_plus hyphen_or_space) ''-'' ?d)"
        using IH(2) nostart by (cases "re_sub (cls_plus hyphen_or_space) ''-'' ?d") (auto simp: startswith_def)
      moreover have "set ?d \<subseteq> set r" by (simp add: set_dropWhileD subsetI)
      ultimately show ?thesis using IH(1) eq Cons True by auto
    qed
  qed
qed

lemma strip_chars_infix: "\<exists>a b. s = a @ strip_chars P s @ b"
proof -
  let ?d = "dropWhile P s"
  have "rev ?d = takeWhile P (rev ?d) @ dropWhile P (rev ?d)" by simp
  then have "?d = rev (dropWhile P (rev ?d)) @ rev (takeWhile P (rev ?d))"
    by (metis rev_append rev_rev_ident)
  then have "s = takeWhile P s @ strip_chars P s @ rev (takeWhile P (rev ?d))"
    unfolding strip_chars_def by (metis takeWhile_dropWhile_id)
  then show ?thesis by blast
qed

lemma set_strip_chars: "set (strip_chars P s) \<subseteq> set s"
proof -
  obtain a b where "s = a @ strip_chars P s @ b" using strip_chars_infix by blast
  then have "set s = set a \<union> set (strip_chars P s) \<union> set b" by (metis set_append Un_assoc)
  then show ?thesis by blast
qed

lemma strip_chars_hd: "strip_chars P s = c # r \<Longrightarrow> \<not> P c"
proof -
  assume a: "strip_chars P s = c # r"
  let ?d = "dropWhile P s"
  have "rev ?d = takeWhile P (rev ?d) @ dropWhile P (rev ?d)" by simp
  then have "?d = rev (dropWhile P (rev ?d)) @ rev (takeWhile P (rev ?d))"
    by (metis rev_append rev_rev_ident)
  then have "?d = c # r @ rev (takeWhile P (rev ?d))"
    using a unfolding strip_chars_def by simp
  then have "?d \<noteq> []" "hd ?d = c" by (metis list.discI, metis list.sel(1))
  then show ?thesis using hd_dropWhile by metis
qed

lemma strip_chars_last: "strip_chars P s = r @ [c] \<Longrightarrow> \<not> P c"
proof -
  assume a: "strip_chars P s = r @ [c]"
  then have "dropWhile P (rev (dropWhile P s)) = c # rev r" unfolding strip_chars_def
    by (metis rev_eq_Cons_iff rev_rev_ident)
  then show ?thesis by (metis hd_dropWhile list.sel(1) list.discI)
qed

lemma not_startswith_strip: "P h \<Longrightarrow> \<not> startswith (strip_chars P s) [h]"
  using strip_chars_hd [of P s] by (cases "strip_chars P s") (auto simp: startswith_def)

lemma not_endswith_strip: "P h \<Longrightarrow> \<not> endswith (strip_chars P s) [h]"
proof
  assume P: "P h" and e: "endswith (strip_chars P s) [h]"
  let ?r = "strip_chars P s"
  from e have "?r \<noteq> []" "drop (length ?r - 1) ?r = [h]" by (auto simp: endswith_def)
  then have "?r = butlast ?r @ [h]"
    by (metis append_butlast_last_id append_take_drop_id butlast_conv_take last_appendR list.discI last_snoc)
  then show False using strip_chars_last P by metis
qed

lemma not_contains_strip: "\<not> contains sub s \<Longrightarrow> \<not> contains sub (strip_chars P s)"
proof -
  obtain a b where s: "s = a @ strip_chars P s @ b" using strip_chars_infix by blast
  assume n: "\<not> contains sub s"
  show ?thesis
  proof
    assume "contains sub (strip_chars P s)"
    then obtain xs ys where "strip_chars P s = xs @ sub @ ys" using contains_iff by blast
    with s have "s = (a @ xs) @ sub @ (ys @ b)" by simp
    then have "contains sub s" using contains_iff by blast
    with n show False by contradiction
  qed
qed

lemma char_95: "ord c = 95 \<Longrightarrow> c = CHR ''_''"
proof -
  assume "ord c = 95"
  then have "char_of (of_char c :: nat) = char_of (95 :: nat)" by (simp add: ord_def)
  then have "c = char_of (95 :: nat)" by simp
  also have "char_of (95 :: nat) = CHR ''_''" by code_simp
  finally show ?thesis .
qed

lemma isword_cases:
  "isword c \<Longrightarrow> \<not> isupper c \<Longrightarrow> slug_char c \<or> c = CHR ''_'' \<or> (isword c \<and> 128 \<le> ord c)"
  using char_95 [of c]
  by (auto simp: isword_def isupper_def slug_char_def islower_ascii_def isdigit_def Let_def)

lemma generate_recipe_id_chars:
  "c \<in> set (generate_recipe_id t) \<Longrightarrow> (isword c \<or> c = CHR ''-'') \<and> \<not> isupper c"
proof -
  let ?f = "re_sub (cls not_word_space_hyphen) [] (lower t)"
  let ?g = "re_sub (cls_plus hyphen_or_space) ''-'' ?f"
  assume "c \<in> set (generate_recipe_id t)"
  then have "c \<in> set ?g" using set_strip_chars unfolding generate_recipe_id_def Let_def by blast
  then have "c \<in> {c \<in> set ?f. \<not> isspace c} \<union> {CHR ''-''}" using collapse_props [of ?f] by blast
  moreover have hy: "\<not> isupper (CHR ''-'')" by (simp add: isupper_def ord_def)
  moreover have "\<And>x. x \<in> set ?f \<Longrightarrow> (isword x \<or> isspace x \<or> x = CHR ''-'') \<and> \<not> isupper x"
    using hy lower_char_not_upper
    by (auto simp: re_sub_cls not_word_space_hyphen_def lower_def)
  ultimately show ?thesis by blast
qed

section \<open>Recipe identifiers: claim C1\<close>

text \<open>
  C1, as amended. For every title, the identifier that \<open>generate_recipe_id\<close> returns is
  lowercase (it is its own \<open>lower()\<close>), every character of it is one of \<open>[a-z0-9-]\<close>, an
  underscore, or a word character outside ASCII (the pattern keeps everything that
  \<open>\w\<close> matches), it neither starts nor ends with a hyphen, and it has no two
  hyphens in a row.
\<close>

theorem generate_recipe_id_shape:
  "lower (generate_recipe_id t) = generate_recipe_id t \<and>
   list_all (\<lambda>c. slug_char c \<or> c = CHR ''_'' \<or> (isword c \<and> 128 \<le> ord c)) (generate_recipe_id t) \<and>
   \<not> startswith (generate_recipe_id t) ''-'' \<and>
   \<not> endswith (generate_recipe_id t) ''-'' \<and>
   \<not> contains ''--'' (generate_recipe_id t)"
proof -
  let ?g = "re_sub (cls_plus hyphen_or_space) ''-'' (re_sub (cls not_word_space_hyphen) [] (lower t))"
  have id: "generate_recipe_id t = strip_chars (\<lambda>c. c = CHR ''-'') ?g"
    by (simp add: generate_recipe_id_def)
  have 1: "lower (generate_recipe_id t) = generate_recipe_id t"
    using generate_recipe_id_chars by (simp add: lower_fixed_iff)
  have 2: "list_all (\<lambda>c. slug_char c \<or> c = CHR ''_'' \<or> (isword c \<and> 128 \<le> ord c)) (generate_recipe_id t)"
    unfolding list_all_iff
  proof
    fix c assume "c \<in> set (generate_recipe_id t)"
    then have "(isword c \<or> c = CHR ''-'') \<and> \<not> isupper c" by (rule generate_recipe_id_chars)
    then show "slug_char c \<or> c = CHR ''_'' \<or> (isword c \<and> 128 \<le> ord c)"
      using isword_cases [of c] by (auto simp: slug_char_def)
  qed
  have 3: "\<not> startswith (generate_recipe_id t) ''-''"
    unfolding id by (rule not_startswith_strip) simp
  have 4: "\<not> endswith (generate_recipe_id t) ''-''"
    unfolding id by (rule not_endswith_strip) simp
  have "\<not> contains ''--'' ?g" using collapse_props [of "re_sub (cls not_word_space_hyphen) [] (lower t)"]
    by (simp add: contains_double)
  then have 5: "\<not> contains ''--'' (generate_recipe_id t)"
    unfolding id by (rule not_contains_strip)
  from 1 2 3 4 5 show ?thesis by blast
qed

text \<open>
  C1, as stated, fails: the title \<open>a_b\<close> keeps its underscore, which is not one of
  \<open>[a-z0-9-]\<close>.
\<close>

theorem generate_recipe_id_underscore:
  "\<not> list_all slug_char (generate_recipe_id ''a_b'')"
  by code_simp

section \<open>Ingredient categories: claim C5\<close>



section \<open>Title and metadata: claims C2 and C9\<close>




















section \<open>The pipeline: claims C6 and C10\<close>












section \<open>Validation: claims C7 and C8\<close>

lemma find_issues_complete:
  "\<forall>r\<in>set rs. title r \<noteq> [] \<and> ingredients r \<noteq> [] \<and> instructions r \<noteq> [] \<Longrightarrow>
   find_issues i rs = []"
  by (induction rs arbitrary: i) simp_all

text \<open>
  C7. For a document written by \<open>process_directory\<close> in which every recipe has a title,
  ingredients and instructions that are not empty, the validator finds no issue and
  prints that all recipes have the required fields.
\<close>

theorem written_document_validates:
  assumes "process_directory d listing out = (Some doc, failed, logged)"
    and "\<forall>r\<in>set (recipes doc). title r \<noteq> [] \<and> ingredients r \<noteq> [] \<and> instructions r \<noteq> []"
  shows "find_issues 0 (recipes doc) = [] \<and>
     validate_json (Document doc) =
       Validating # ValidJson (length (recipes doc)) # AllOk # statistics (recipes doc)"
  using find_issues_complete [OF assms(2)] by (simp add: validate_json_def Let_def)

text \<open>The document written for a directory with one complete recipe.\<close>

theorem written_document_validates_witness:
  "validate_json (Document
     \<lparr>recipes =
        [\<lparr>recipe_id = ''creamy-tomato-basil-soup-with-bread'',
          title = ''Creamy Tomato Basil Soup with Bread'',
          cookTime = ''25 minutes'', servings = 4, cookware = [],
          ingredients =
            [\<lparr>name = ''flour'', quantity = ''1 cup'', category = ''pantry'',
              original = ''1 cup flour''\<rparr>],
          instructions = [\<lparr>step = 1, step_text = ''Preheat oven.''\<rparr>],
          tags = []\<rparr>],
      metadata = \<lparr>total_count = 1, generated = ''Generated by pdf_to_json.py'',
        source = ''in''\<rparr>\<rparr>) =
   [Validating, ValidJson 1, AllOk, Statistics 1 1 1, AvgIngredients 1, AvgSteps 1]"
proof -
  let ?text = "''Creamy Tomato Basil Soup with Bread'' @ [NL] @ ''25 minutes, 4 servings'' @ [NL] @
     ''Grab ingredients'' @ [NL] @ ''1 cup flour'' @ [NL] @
     ''Cook & enjoy'' @ [NL] @ ''1'' @ [NL] @ ''Preheat oven.''"
  let ?r = "\<lparr>recipe_id = ''creamy-tomato-basil-soup-with-bread'',
          title = ''Creamy Tomato Basil Soup with Bread'',
          cookTime = ''25 minutes'', servings = 4, cookware = [],
          ingredients =
            [\<lparr>name = ''flour'', quantity = ''1 cup'', category = ''pantry'',
              original = ''1 cup flour''\<rparr>],
          instructions = [\<lparr>step = 1, step_text = ''Preheat oven.''\<rparr>],
          tags = []\<rparr>"
  let ?doc = "\<lparr>recipes = [?r],
      metadata = \<lparr>total_count = 1, generated = ''Generated by pdf_to_json.py'',
        source = ''in''\<rparr>\<rparr>"
  have run: "process_directory ''in'' (Some [(''in/soup.pdf'', Some [?text])]) ''out.json'' =
     (Some ?doc, [],
      [Found 1, Processing ''soup.pdf'', Extracted 1 1, Succeeded 1, OutputWritten ''out.json''])"
    by code_simp
  have complete: "\<forall>r\<in>set (recipes ?doc).
      title r \<noteq> [] \<and> ingredients r \<noteq> [] \<and> instructions r \<noteq> []" by simp
  have st: "statistics [?r] = [Statistics 1 1 1, AvgIngredients 1, AvgSteps 1]"
    by (simp add: statistics_def truediv_def)
  from written_document_validates [OF run complete]
  show ?thesis by (simp add: st)
qed

lemma statistics_nonempty:
  "rs \<noteq> [] \<Longrightarrow>
   statistics rs =
     [Statistics (length rs)
        (sum_list (map (\<lambda>r. length (ingredients r)) rs))
        (sum_list (map (\<lambda>r. length (instructions r)) rs)),
      AvgIngredients (of_nat (sum_list (map (\<lambda>r. length (ingredients r)) rs)) / of_nat (length rs)),
      AvgSteps (of_nat (sum_list (map (\<lambda>r. length (instructions r)) rs)) / of_nat (length rs))]"
  by (simp add: statistics_def truediv_def Let_def)

text \<open>
  C8. The averages are quotients by the number of recipes, with no test of that number
  before. For a document with at least one recipe both are defined, the totals divided
  by the number of recipes, and no division by zero is reported; for a document without
  recipes the first division raises \<open>ZeroDivisionError\<close>, which the validator reports
  after the totals.
\<close>

theorem averages_defined_iff_recipes:
  "(recipes data \<noteq> [] \<longrightarrow>
      statistics (recipes data) =
        [Statistics (length (recipes data))
           (sum_list (map (\<lambda>r. length (ingredients r)) (recipes data)))
           (sum_list (map (\<lambda>r. length (instructions r)) (recipes data))),
         AvgIngredients
           (of_nat (sum_list (map (\<lambda>r. length (ingredients r)) (recipes data))) /
            of_nat (length (recipes data))),
         AvgSteps
           (of_nat (sum_list (map (\<lambda>r. length (instructions r)) (recipes data))) /
            of_nat (length (recipes data)))] \<and>
      ErrorValidating ZeroDivisionError \<notin> set (validate_json (Document data))) \<and>
   (recipes data = [] \<longrightarrow>
      validate_json (Document data) =
        [Validating, ValidJson 0, AllOk, Statistics 0 0 0, ErrorValidating ZeroDivisionError])"
proof -
  have a: "ErrorValidating ZeroDivisionError \<notin> set (validate_json (Document data))"
    if "recipes data \<noteq> []"
    using that by (simp add: validate_json_def statistics_nonempty Let_def)
  have b: "validate_json (Document data) =
        [Validating, ValidJson 0, AllOk, Statistics 0 0 0, ErrorValidating ZeroDivisionError]"
    if "recipes data = []"
    using that by (simp add: validate_json_def statistics_def truediv_def)
  from a b statistics_nonempty [of "recipes data"] show ?thesis by blast
qed

text \<open>A document with one recipe, and a document without recipes.\<close>

theorem averages_defined_iff_recipes_witness:
  "validate_json (Document
     \<lparr>recipes =
        [\<lparr>recipe_id = ''unknown-recipe'', title = ''Unknown Recipe'',
          cookTime = ''30 minutes'', servings = 2, cookware = [],
          ingredients = [], instructions = [], tags = []\<rparr>],
      metadata = \<lparr>total_count = 1, generated = [], source = []\<rparr>\<rparr>) =
     [Validating, ValidJson 1,
      ValidationWarnings
        [\<lparr>issue_index = 1, issue_id = ''unknown-recipe'',
          missing = [''ingredients'', ''instructions'']\<rparr>] None,
      Statistics 1 0 0, AvgIngredients 0, AvgSteps 0] \<and>
   validate_json (Document
     \<lparr>recipes = [], metadata = \<lparr>total_count = 0, generated = [], source = []\<rparr>\<rparr>) =
     [Validating, ValidJson 0, AllOk, Statistics 0 0 0, ErrorValidating ZeroDivisionError]"
proof -
  let ?r = "\<lparr>recipe_id = ''unknown-recipe'', title = ''Unknown Recipe'',
          cookTime = ''30 minutes'', servings = 2, cookware = [],
          ingredients = [], instructions = [], tags = []\<rparr>"
  let ?one = "\<lparr>recipes = [?r], metadata = \<lparr>total_count = 1, generated = [], source = []\<rparr>\<rparr>"
  let ?none = "\<lparr>recipes = [], metadata = \<lparr>total_count = 0, generated = [], source = []\<rparr>\<rparr>"
  have ne: "recipes ?one \<noteq> []" by simp
  have em: "recipes ?none = []" by simp
  from averages_defined_iff_recipes [of ?one] ne
  have "statistics (recipes ?one) = [Statistics 1 0 0, AvgIngredients 0, AvgSteps 0]" by simp
  then have one: "validate_json (Document ?one) =
     [Validating, ValidJson 1,
      ValidationWarnings
        [\<lparr>issue_index = 1, issue_id = ''unknown-recipe'',
          missing = [''ingredients'', ''instructions'']\<rparr>] None,
      Statistics 1 0 0, AvgIngredients 0, AvgSteps 0]"
    by (simp add: validate_json_def)
  from averages_defined_iff_recipes [of ?none] em
  have "validate_json (Document ?none) =
     [Validating, ValidJson 0, AllOk, Statistics 0 0 0, ErrorValidating ZeroDivisionError]"
    by blast
  with one show ?thesis by blast
qed

section \<open>Instructions: claim C3\<close>




















section \<open>Ingredients: claim C4\<close>

















end
